theory Spec2Isabelle
  imports Complex_Main
begin

section \<open>Python values\<close>

text \<open>
  A Python \<open>str\<close> is a sequence of Unicode code points, so \<open>len\<close> and slicing count code
  points. It is modelled as a list of code-point numbers; \<open>lit\<close> embeds an ASCII literal.
\<close>

type_synonym ustr = "nat list"

definition lit :: "string \<Rightarrow> ustr" where
  "lit s = map of_char s"

definition nl :: ustr where
  "nl = [10]"

text \<open>
  A Python \<open>float\<close> is a binary64 value: a finite one is \<open>\<plusminus> m * 2 ^ e\<close> (sign, mantissa,
  exponent; the sign is kept apart so that \<open>-0.0\<close> exists), the others are the two
  infinities and NaN. \<open>json.loads\<close> produces all of them (it accepts \<open>NaN\<close>, \<open>Infinity\<close> and
  \<open>-Infinity\<close>).
\<close>

datatype pyfloat = Finite bool nat int | PosInf | NegInf | NaN

text \<open>What \<open>response.json()\<close> can return: the Python image of a JSON document.\<close>

datatype pyval =
    PyNone
  | PyBool bool
  | PyInt int
  | PyFloat pyfloat
  | PyStr ustr
  | PyList "pyval list"
  | PyDict "(ustr \<times> pyval) list"

text \<open>Truth value testing, as \<open>if x:\<close> and \<open>x and y\<close> do it.\<close>

fun py_truthy :: "pyval \<Rightarrow> bool" where
  "py_truthy PyNone = False"
| "py_truthy (PyBool b) = b"
| "py_truthy (PyInt n) = (n \<noteq> 0)"
| "py_truthy (PyFloat (Finite s m e)) = (m \<noteq> 0)"
| "py_truthy (PyFloat PosInf) = True"
| "py_truthy (PyFloat NegInf) = True"
| "py_truthy (PyFloat NaN) = True"
| "py_truthy (PyStr s) = (s \<noteq> [])"
| "py_truthy (PyList xs) = (xs \<noteq> [])"
| "py_truthy (PyDict d) = (d \<noteq> [])"

text \<open>\<open>d.get(k, default)\<close>: the default is used only when the key is absent.\<close>

definition dict_get :: "(ustr \<times> pyval) list \<Rightarrow> ustr \<Rightarrow> pyval \<Rightarrow> pyval" where
  "dict_get d k dflt = (case map_of d k of None \<Rightarrow> dflt | Some v \<Rightarrow> v)"

text \<open>
  Exceptions are values. Each constructor names the operation that raised and its operand:
  \<open>NoAttribute v a\<close> is the AttributeError of \<open>v.a\<close>, \<open>Unhashable\<close> the TypeError of hashing
  a list or dict, \<open>NotIterable\<close> the TypeError of iterating a number, \<open>NotSubscriptable\<close> the
  failure of \<open>v[:200]\<close>, \<open>BadFormatSpec\<close> the ValueError or TypeError of formatting a
  non-number with an \<open>f\<close> format spec, \<open>IntTooLarge\<close> the OverflowError of converting an int
  to float, \<open>NotAFloat\<close> the ValueError or TypeError of \<open>float(v)\<close>, \<open>RequestError\<close> an
  exception of the HTTP request (network error, timeout) and \<open>JsonError\<close> an exception of
  decoding the response body.
\<close>

datatype pyerror =
    NoAttribute pyval string
  | Unhashable pyval
  | NotIterable pyval
  | NotSubscriptable pyval
  | BadFormatSpec pyval
  | IntTooLarge int
  | NotAFloat pyval
  | RequestError ustr
  | JsonError ustr

text \<open>
  The parts of the Python runtime that the program calls and whose result is not fixed here
  are parameters: \<open>str(v)\<close> of a value that is not a string, \<open>float(s)\<close> of a string
  (\<open>None\<close> when it raises ValueError), \<open>str(e)\<close> of an exception, and the formatted
  wall-clock time \<open>datetime.now().strftime(...)\<close> at a given point of the run.
\<close>

record runtime =
  str_of :: "pyval \<Rightarrow> ustr"
  float_of_str :: "ustr \<Rightarrow> pyfloat option"
  exc_str :: "pyerror \<Rightarrow> ustr"
  clock :: "nat \<Rightarrow> ustr"

definition py_str :: "runtime \<Rightarrow> pyval \<Rightarrow> ustr" where
  "py_str rt v = (case v of PyStr s \<Rightarrow> s | _ \<Rightarrow> str_of rt v)"

section \<open>Feed client: \<open>get_new_tokens\<close>\<close>

text \<open>
  What the GET request does: it raises, or it yields a response with a status and the
  outcome of \<open>response.json()\<close> (an exception or the decoded value).
\<close>

datatype http_outcome =
    RequestRaised pyerror
  | Response nat "pyerror + pyval"

text \<open>The body of the \<open>try\<close> block of \<open>get_new_tokens\<close>.\<close>

definition get_new_tokens_try :: "http_outcome \<Rightarrow> pyerror + pyval" where
  "get_new_tokens_try out =
     (case out of
        RequestRaised e \<Rightarrow> Inl e
      | Response status body \<Rightarrow>
          if status = 200 then
            (case body of
               Inl e \<Rightarrow> Inl e
             | Inr data \<Rightarrow>
                 (case data of
                    PyList xs \<Rightarrow> Inr data
                  | PyDict d \<Rightarrow> Inr (dict_get d (lit ''coins'') (PyList []))
                  | _ \<Rightarrow> Inl (NoAttribute data ''get'')))
          else Inr (PyList []))"

text \<open>\<open>except Exception: return []\<close>.\<close>

definition get_new_tokens :: "http_outcome \<Rightarrow> pyval" where
  "get_new_tokens out =
     (case get_new_tokens_try out of Inl e \<Rightarrow> PyList [] | Inr v \<Rightarrow> v)"

text \<open>The failure outcomes of the request: it raised, the status is not 200, or the body
  could not be decoded.\<close>

fun request_failed :: "http_outcome \<Rightarrow> bool" where
  "request_failed (RequestRaised e) = True"
| "request_failed (Response status (Inl e)) = True"
| "request_failed (Response status (Inr data)) = (status \<noteq> 200)"

section \<open>Formatter: number formatting\<close>

text \<open>Decimal digits of a natural number, most significant first.\<close>

fun digits :: "nat \<Rightarrow> ustr" where
  "digits n = (if n < 10 then [48 + n] else digits (n div 10) @ [48 + n mod 10])"

declare digits.simps [simp del]

text \<open>The \<open>,\<close> option of a format spec: a comma before every group of three digits,
  counted from the right.\<close>

fun group3 :: "ustr \<Rightarrow> ustr" where
  "group3 ds =
     (if length ds \<le> 3 then ds
      else group3 (take (length ds - 3) ds) @ [44] @ drop (length ds - 3) ds)"

declare group3.simps [simp del]

definition pad_digits :: "nat \<Rightarrow> nat \<Rightarrow> ustr" where
  "pad_digits p n = replicate (p - length (digits n)) 48 @ digits n"

text \<open>The quotient \<open>n / d\<close> rounded to the nearest integer, ties to even.\<close>

definition round_half_even :: "nat \<Rightarrow> nat \<Rightarrow> nat" where
  "round_half_even n d =
     (let q = n div d; r = n mod d in
      if 2 * r < d then q
      else if d < 2 * r then q + 1
      else if even q then q else q + 1)"

text \<open>\<open>m * 2 ^ e * 10 ^ p\<close>, correctly rounded to an integer.\<close>

definition scaled :: "nat \<Rightarrow> nat \<Rightarrow> int \<Rightarrow> nat" where
  "scaled p m e =
     (if 0 \<le> e then m * 2 ^ nat e * 10 ^ p
      else round_half_even (m * 10 ^ p) (2 ^ nat (- e)))"

text \<open>
  The presentation type \<open>f\<close> with precision \<open>p\<close>, with or without the \<open>,\<close> option, applied
  to a float: the exact value is rounded correctly to \<open>p\<close> decimals; infinities and NaN are
  written as words.
\<close>

fun fixed_point :: "bool \<Rightarrow> nat \<Rightarrow> pyfloat \<Rightarrow> ustr" where
  "fixed_point grp p (Finite s m e) =
     (let n = scaled p m e; ip = digits (n div 10 ^ p) in
      (if s then lit ''-'' else []) @ (if grp then group3 ip else ip) @ lit ''.'' @
      pad_digits p (n mod 10 ^ p))"
| "fixed_point grp p PosInf = lit ''inf''"
| "fixed_point grp p NegInf = lit ''-inf''"
| "fixed_point grp p NaN = lit ''nan''"

text \<open>\<open>int.bit_length()\<close>.\<close>

fun bit_length :: "nat \<Rightarrow> nat" where
  "bit_length n = (if n = 0 then 0 else Suc (bit_length (n div 2)))"

declare bit_length.simps [simp del]

text \<open>
  Conversion of an int to float, as \<open>float(n)\<close> and the \<open>f\<close> presentation type of an int do
  it: exact below \<open>2 ^ 53\<close>, rounded to 53 significant bits (ties to even) above, and
  OverflowError when the rounded value would reach \<open>2 ^ 1024\<close>, that is from
  \<open>2 ^ 1024 - 2 ^ 970\<close> on.
\<close>

definition float_of_int :: "int \<Rightarrow> pyerror + pyfloat" where
  "float_of_int n =
     (let a = nat \<bar>n\<bar> in
      if 2 ^ 1024 - 2 ^ 970 \<le> a then Inl (IntTooLarge n)
      else if a < 2 ^ 53 then Inr (Finite (n < 0) a 0)
      else
        (let k = bit_length a - 53; m = a div 2 ^ k; r = a mod 2 ^ k in
         Inr (Finite (n < 0)
               (if 2 ^ k < 2 * r then m + 1
                else if 2 * r < 2 ^ k then m
                else if even m then m else m + 1)
               (int k))))"

text \<open>\<open>format(v, spec)\<close> for a spec of presentation type \<open>f\<close>: a bool is an int, a string
  raises ValueError, every other value TypeError.\<close>

fun format_f :: "bool \<Rightarrow> nat \<Rightarrow> pyval \<Rightarrow> pyerror + ustr" where
  "format_f grp p (PyFloat f) = Inr (fixed_point grp p f)"
| "format_f grp p (PyInt n) =
     (case float_of_int n of Inl e \<Rightarrow> Inl e | Inr f \<Rightarrow> Inr (fixed_point grp p f))"
| "format_f grp p (PyBool b) =
     (case float_of_int (if b then 1 else 0) of
        Inl e \<Rightarrow> Inl e | Inr f \<Rightarrow> Inr (fixed_point grp p f))"
| "format_f grp p v = Inl (BadFormatSpec v)"

text \<open>\<open>float(v)\<close>.\<close>

fun py_float :: "runtime \<Rightarrow> pyval \<Rightarrow> pyerror + pyfloat" where
  "py_float rt (PyFloat f) = Inr f"
| "py_float rt (PyInt n) = float_of_int n"
| "py_float rt (PyBool b) = float_of_int (if b then 1 else 0)"
| "py_float rt (PyStr s) =
     (case float_of_str rt s of None \<Rightarrow> Inl (NotAFloat (PyStr s)) | Some f \<Rightarrow> Inr f)"
| "py_float rt v = Inl (NotAFloat v)"

section \<open>Formatter: \<open>format_token_message\<close>\<close>

text \<open>\<open>f"${market_cap:,.2f}" if market_cap else "N/A"\<close>\<close>

definition market_cap_formatted :: "pyval \<Rightarrow> pyerror + ustr" where
  "market_cap_formatted market_cap =
     (if py_truthy market_cap then
        (case format_f True 2 market_cap of
           Inl e \<Rightarrow> Inl e | Inr s \<Rightarrow> Inr (lit ''$'' @ s))
      else Inr (lit ''N/A''))"

text \<open>\<open>f"${float(price):.8f}" if price else "N/A"\<close>\<close>

definition price_formatted :: "runtime \<Rightarrow> pyval \<Rightarrow> pyerror + ustr" where
  "price_formatted rt price =
     (if py_truthy price then
        (case py_float rt price of
           Inl e \<Rightarrow> Inl e | Inr f \<Rightarrow> Inr (lit ''$'' @ fixed_point False 8 f))
      else Inr (lit ''N/A''))"

text \<open>
  \<open>{description[:200]}{'...' if len(description) > 200 else ''}\<close>: a string or a list can be
  sliced and measured; any other value raises.
\<close>

fun description_segment :: "runtime \<Rightarrow> pyval \<Rightarrow> pyerror + ustr" where
  "description_segment rt (PyStr s) =
     Inr (take 200 s @ (if 200 < length s then lit ''...'' else []))"
| "description_segment rt (PyList xs) =
     Inr (str_of rt (PyList (take 200 xs)) @ (if 200 < length xs then lit ''...'' else []))"
| "description_segment rt v = Inl (NotSubscriptable v)"

text \<open>The template of the message, in the order of the source: the lines down to the
  description heading, the description line, the three fixed links, the optional links,
  the time stamp.\<close>

definition message_head :: "ustr \<Rightarrow> ustr \<Rightarrow> ustr \<Rightarrow> ustr \<Rightarrow> ustr \<Rightarrow> ustr \<Rightarrow> ustr" where
  "message_head name symbol mint creator price_f market_cap_f =
     nl @ [0x1F680] @ lit '' <b>NEW TOKEN LISTED ON PUMP.FUN</b>'' @ nl @
     nl @
     [0x1F48E] @ lit '' <b>Name:</b> '' @ name @ nl @
     [0x1F3AF] @ lit '' <b>Symbol:</b> $'' @ symbol @ nl @
     [0x1F511] @ lit '' <b>Contract:</b> <code>'' @ mint @ lit ''</code>'' @ nl @
     [0x1F464] @ lit '' <b>Creator:</b> <code>'' @ creator @ lit ''</code>'' @ nl @
     nl @
     [0x1F4B0] @ lit '' <b>Price:</b> '' @ price_f @ nl @
     [0x1F4CA] @ lit '' <b>Market Cap:</b> '' @ market_cap_f @ nl @
     nl @
     [0x1F4DD] @ lit '' <b>Description:</b>'' @ nl"

definition message_links :: "ustr \<Rightarrow> ustr" where
  "message_links mint =
     nl @
     nl @
     [0x1F517] @ lit '' <b>Links:</b>'' @ nl @
     [0x2022] @ lit '' Pump.fun: https://pump.fun/'' @ mint @ nl @
     [0x2022] @ lit '' DEXScreener: https://dexscreener.com/solana/'' @ mint @ nl @
     [0x2022] @ lit '' Birdeye: https://birdeye.so/token/'' @ mint @ nl"

definition social_link :: "runtime \<Rightarrow> string \<Rightarrow> pyval \<Rightarrow> ustr" where
  "social_link rt label v =
     (if py_truthy v then [0x2022] @ lit '' '' @ lit label @ lit '': '' @ py_str rt v @ nl
      else [])"

definition message_footer :: "ustr \<Rightarrow> ustr" where
  "message_footer now = nl @ [0x23F0] @ lit '' <b>Detected at:</b> '' @ now"

text \<open>The body of the \<open>try\<close> block of \<open>format_token_message\<close>; \<open>now\<close> is the formatted
  current time.\<close>

definition format_body :: "runtime \<Rightarrow> ustr \<Rightarrow> (ustr \<times> pyval) list \<Rightarrow> pyerror + ustr" where
  "format_body rt now token =
     (let name = dict_get token (lit ''name'') (PyStr (lit ''Unknown''));
          symbol = dict_get token (lit ''symbol'') (PyStr (lit ''N/A''));
          mint = dict_get token (lit ''mint'') (PyStr (lit ''N/A''));
          description =
            dict_get token (lit ''description'') (PyStr (lit ''No description available''));
          market_cap = dict_get token (lit ''usd_market_cap'') (PyInt 0);
          price = dict_get token (lit ''price_usd'') (PyInt 0);
          creator = dict_get token (lit ''creator'') (PyStr (lit ''Unknown''));
          website = dict_get token (lit ''website'') (PyStr []);
          telegram = dict_get token (lit ''telegram'') (PyStr []);
          twitter = dict_get token (lit ''twitter'') (PyStr [])
      in
      case market_cap_formatted market_cap of
        Inl e \<Rightarrow> Inl e
      | Inr market_cap_f \<Rightarrow>
          (case price_formatted rt price of
             Inl e \<Rightarrow> Inl e
           | Inr price_f \<Rightarrow>
               (case description_segment rt description of
                  Inl e \<Rightarrow> Inl e
                | Inr segment \<Rightarrow>
                    Inr (message_head (py_str rt name) (py_str rt symbol) (py_str rt mint)
                           (py_str rt creator) price_f market_cap_f @
                         segment @
                         message_links (py_str rt mint) @
                         social_link rt ''Website'' website @
                         social_link rt ''Twitter'' twitter @
                         social_link rt ''Telegram'' telegram @
                         message_footer now))))"

text \<open>\<open>except Exception as e: return f"Error formatting token data: {str(e)}"\<close>\<close>

definition format_token_message :: "runtime \<Rightarrow> ustr \<Rightarrow> (ustr \<times> pyval) list \<Rightarrow> ustr" where
  "format_token_message rt now token =
     (case format_body rt now token of
        Inl e \<Rightarrow> lit ''Error formatting token data: '' @ exc_str rt e
      | Inr message \<Rightarrow> message)"

section \<open>Monitor: \<open>monitor_new_tokens\<close>\<close>

text \<open>
  The elements of \<open>seen_tokens\<close>. Membership in a Python set goes by hash and equality:
  numbers are equal when their values are (\<open>True == 1 == 1.0\<close>), strings when their
  characters are; lists and dicts cannot be hashed.
\<close>

datatype key = KNone | KNum rat | KPosInf | KNegInf | KNaN | KStr ustr

definition float_value :: "bool \<Rightarrow> nat \<Rightarrow> int \<Rightarrow> rat" where
  "float_value s m e =
     (if s then - 1 else 1) *
     (if 0 \<le> e then of_nat (m * 2 ^ nat e) else of_nat m / of_nat (2 ^ nat (- e)))"

fun hash_key :: "pyval \<Rightarrow> pyerror + key" where
  "hash_key PyNone = Inr KNone"
| "hash_key (PyBool b) = Inr (KNum (if b then 1 else 0))"
| "hash_key (PyInt n) = Inr (KNum (of_int n))"
| "hash_key (PyFloat (Finite s m e)) = Inr (KNum (float_value s m e))"
| "hash_key (PyFloat PosInf) = Inr KPosInf"
| "hash_key (PyFloat NegInf) = Inr KNegInf"
| "hash_key (PyFloat NaN) = Inr KNaN"
| "hash_key (PyStr s) = Inr (KStr s)"
| "hash_key v = Inl (Unhashable v)"

text \<open>
  The effects of the monitor that the outside sees, in order: a message posted to the
  chat (\<open>send_telegram_message\<close>, which catches every exception of the request and so
  never raises) and a pause of so many seconds (\<open>asyncio.sleep\<close>). Logging is left out.
\<close>

datatype event = Send ustr | Sleep nat

record monitor =
  seen_tokens :: "key set"
  trace :: "event list"

definition emit :: "event \<Rightarrow> monitor \<Rightarrow> monitor" where
  "emit ev st = st\<lparr>trace := trace st @ [ev]\<rparr>"

definition notifications :: "event list \<Rightarrow> ustr list" where
  "notifications evs = concat (map (\<lambda>ev. case ev of Send m \<Rightarrow> [m] | Sleep n \<Rightarrow> []) evs)"

text \<open>
  The body of the \<open>for\<close> loop for one element of the batch. \<open>token.get\<close> raises on anything
  but a dict; \<open>token_mint and token_mint not in self.seen_tokens\<close> tests membership only
  for a truthy identifier. The time stamp of the message is the clock's reading at this
  point of the trace.
\<close>

definition process_token :: "runtime \<Rightarrow> monitor \<Rightarrow> pyval \<Rightarrow> pyerror + monitor" where
  "process_token rt st token =
     (case token of
        PyDict d \<Rightarrow>
          (let token_mint = dict_get d (lit ''mint'') (PyStr []) in
           if py_truthy token_mint then
             (case hash_key token_mint of
                Inl e \<Rightarrow> Inl e
              | Inr k \<Rightarrow>
                  if k \<in> seen_tokens st then Inr st
                  else
                    Inr (emit (Sleep 2)
                          (emit (Send (format_token_message rt (clock rt (length (trace st))) d))
                            (st\<lparr>seen_tokens := insert k (seen_tokens st)\<rparr>))))
           else Inr st)
      | _ \<Rightarrow> Inl (NoAttribute token ''get''))"

text \<open>The \<open>for\<close> loop: it stops at the first exception, keeping the state reached.\<close>

fun process_tokens :: "runtime \<Rightarrow> monitor \<Rightarrow> pyval list \<Rightarrow> monitor \<times> pyerror option" where
  "process_tokens rt st [] = (st, None)"
| "process_tokens rt st (token # rest) =
     (case process_token rt st token of
        Inl e \<Rightarrow> (st, Some e)
      | Inr st' \<Rightarrow> process_tokens rt st' rest)"

text \<open>What \<open>for token in tokens\<close> iterates over.\<close>

fun py_iter :: "pyval \<Rightarrow> pyerror + pyval list" where
  "py_iter (PyList xs) = Inr xs"
| "py_iter (PyStr s) = Inr (map (\<lambda>c. PyStr [c]) s)"
| "py_iter (PyDict d) = Inr (map (\<lambda>kv. PyStr (fst kv)) d)"
| "py_iter v = Inl (NotIterable v)"

text \<open>
  One pass of the \<open>while True\<close> loop, for a given outcome of the feed request: the steady
  pause of 30 seconds after a batch or an empty result, the pause of 60 seconds when an
  exception reached the \<open>except\<close> clause of the loop.
\<close>

definition iteration :: "runtime \<Rightarrow> monitor \<Rightarrow> http_outcome \<Rightarrow> monitor" where
  "iteration rt st out =
     (let tokens = get_new_tokens out in
      if py_truthy tokens then
        (case py_iter tokens of
           Inl e \<Rightarrow> emit (Sleep 60) st
         | Inr ts \<Rightarrow>
             (case process_tokens rt st ts of
                (st', Some e) \<Rightarrow> emit (Sleep 60) st'
              | (st', None) \<Rightarrow> emit (Sleep 30) st'))
      else emit (Sleep 30) st)"

text \<open>The loop never ends by itself; it is run here for as many passes as there are
  outcomes of the feed request.\<close>

fun monitor_loop :: "runtime \<Rightarrow> monitor \<Rightarrow> http_outcome list \<Rightarrow> monitor" where
  "monitor_loop rt st [] = st"
| "monitor_loop rt st (out # outs) = monitor_loop rt (iteration rt st out) outs"

text \<open>\<open>__init__\<close> and the start of \<open>monitor_new_tokens\<close>: an empty set, then the startup
  message, then the loop.\<close>

definition init_monitor :: monitor where
  "init_monitor = \<lparr>seen_tokens = {}, trace = []\<rparr>"

definition startup_message :: ustr where
  "startup_message =
     [0x1F916] @ lit '' Pump.fun Token Monitor Started!'' @ nl @
     lit ''Watching for new token listings...''"

definition monitor_new_tokens :: "runtime \<Rightarrow> http_outcome list \<Rightarrow> monitor" where
  "monitor_new_tokens rt outs = monitor_loop rt (emit (Send startup_message) init_monitor) outs"

text \<open>Whether a value is a dict, the only kind of value with a \<open>get\<close> method here.\<close>

fun is_mapping :: "pyval \<Rightarrow> bool" where
  "is_mapping (PyDict d) = True"
| "is_mapping v = False"

text \<open>A runtime to evaluate examples with.\<close>

definition demo_runtime :: runtime where
  "demo_runtime =
     \<lparr>str_of = (\<lambda>v. lit ''<value>''),
      float_of_str = (\<lambda>s. None),
      exc_str = (\<lambda>e. lit ''<exception>''),
      clock = (\<lambda>n. lit ''2024-01-01 00:00:00 UTC'')\<rparr>"

text \<open>The record \<open>{"mint": m}\<close>.\<close>

definition mint_only :: "string \<Rightarrow> (ustr \<times> pyval) list" where
  "mint_only m = [(lit ''mint'', PyStr (lit m))]"

text \<open>The feed response \<open>[{"mint": "A"}, {"mint": "B"}, {"mint": "A"}]\<close> with status 200.\<close>

definition feed_ABA :: http_outcome where
  "feed_ABA =
     Response 200
       (Inr (PyList [PyDict (mint_only ''A''), PyDict (mint_only ''B''), PyDict (mint_only ''A'')]))"

text \<open>Whether a value is a number for Python: an int (a bool is one) or a float.\<close>

fun is_number :: "pyval \<Rightarrow> bool" where
  "is_number (PyBool b) = True"
| "is_number (PyInt n) = True"
| "is_number (PyFloat f) = True"
| "is_number v = False"

text \<open>
  What a currency string looks like: a dollar sign, an optional minus sign, the integer
  digits (with \<open>grp\<close>: in groups of three from the right, separated by commas, the
  leftmost group of one to three digits), a decimal point and exactly \<open>p\<close> decimals.
  \<open>grouped_rev\<close> reads the integer part from the right.
\<close>

definition is_digit :: "nat \<Rightarrow> bool" where
  "is_digit c = (48 \<le> c \<and> c \<le> 57)"

fun grouped_rev :: "ustr \<Rightarrow> bool" where
  "grouped_rev (a # b # c # d # rest) =
     (is_digit a \<and> is_digit b \<and> is_digit c \<and> d = 44 \<and> grouped_rev rest)"
| "grouped_rev ds = (ds \<noteq> [] \<and> list_all is_digit ds)"

definition decimal_shape :: "bool \<Rightarrow> nat \<Rightarrow> ustr \<Rightarrow> bool" where
  "decimal_shape grp p b =
     (let n = length b; ip = take (n - (p + 1)) b in
      p + 1 < n \<and>
      (if grp then grouped_rev (rev ip) else list_all is_digit ip) \<and>
      b ! (n - (p + 1)) = 46 \<and>
      list_all is_digit (drop (n - p) b))"

definition money_shape :: "bool \<Rightarrow> nat \<Rightarrow> ustr \<Rightarrow> bool" where
  "money_shape grp p s =
     (case s of
        [] \<Rightarrow> False
      | c # t \<Rightarrow>
          c = 36 \<and>
          (case t of
             [] \<Rightarrow> False
           | x # u \<Rightarrow> if x = 45 then decimal_shape grp p u else decimal_shape grp p t))"

section \<open>Feed client: results\<close>

lemma get_new_tokens_shapes:
  "get_new_tokens (Response 200 (Inr (PyList xs))) = PyList xs"
  "map_of d (lit ''coins'') = Some v \<Longrightarrow> get_new_tokens (Response 200 (Inr (PyDict d))) = v"
  "map_of d (lit ''coins'') = None \<Longrightarrow> get_new_tokens (Response 200 (Inr (PyDict d))) = PyList []"
  "get_new_tokens (Response 200 (Inr PyNone)) = PyList []"
  "get_new_tokens (Response 200 (Inr (PyBool b))) = PyList []"
  "get_new_tokens (Response 200 (Inr (PyInt n))) = PyList []"
  "get_new_tokens (Response 200 (Inr (PyFloat f))) = PyList []"
  "get_new_tokens (Response 200 (Inr (PyStr s))) = PyList []"
  by (simp_all add: get_new_tokens_def get_new_tokens_try_def dict_get_def)

text \<open>
  C2: on a 200 response \<open>get_new_tokens\<close> returns the body when it is a list and the value
  under \<open>coins\<close> when the body is an object; the claim promises the empty list whenever
  the body is neither a list nor an object with a list under \<open>coins\<close>. For the body
  \<open>{"coins": 5}\<close> the function returns the number 5, which is not a list.
\<close>

theorem get_new_tokens_coins_not_a_list:
  "get_new_tokens (Response 200 (Inr (PyDict [(lit ''coins'', PyInt 5)]))) = PyInt 5"
  by (simp add: get_new_tokens_def get_new_tokens_try_def dict_get_def)

text \<open>
  C3: for every failure outcome of the feed request (the request raises, as on a network
  error or a timeout; the status is not 200; the body cannot be decoded),
  \<open>get_new_tokens\<close> returns the empty list; and whatever exception the body of its
  \<open>try\<close> block raises, the function still returns the empty list.
\<close>

theorem get_new_tokens_failure:
  "(request_failed out \<longrightarrow> get_new_tokens out = PyList []) \<and>
   (get_new_tokens_try out = Inl e \<longrightarrow> get_new_tokens out = PyList [])"
proof (intro conjI impI)
  assume "request_failed out"
  then show "get_new_tokens out = PyList []"
    by (cases out rule: request_failed.cases)
       (simp_all add: get_new_tokens_def get_new_tokens_try_def)
next
  assume "get_new_tokens_try out = Inl e"
  then show "get_new_tokens out = PyList []"
    by (simp add: get_new_tokens_def)
qed

theorem get_new_tokens_failure_witness:
  "request_failed (Response 503 (Inr (PyList [PyDict [(lit ''mint'', PyStr (lit ''A''))]]))) \<and>
   get_new_tokens (Response 503 (Inr (PyList [PyDict [(lit ''mint'', PyStr (lit ''A''))]]))) = PyList [] \<and>
   get_new_tokens_try (Response 200 (Inl (JsonError (lit ''Expecting value'')))) =
     Inl (JsonError (lit ''Expecting value'')) \<and>
   get_new_tokens (Response 200 (Inl (JsonError (lit ''Expecting value'')))) = PyList []"
  using get_new_tokens_failure
          [of "Response 503 (Inr (PyList [PyDict [(lit ''mint'', PyStr (lit ''A''))]]))"
              "JsonError (lit ''Expecting value'')"]
        get_new_tokens_failure
          [of "Response 200 (Inl (JsonError (lit ''Expecting value'')))"
              "JsonError (lit ''Expecting value'')"]
  by (simp add: get_new_tokens_try_def)

section \<open>Monitor: one element of the batch\<close>

lemma process_token_new:
  assumes "py_truthy (dict_get d (lit ''mint'') (PyStr []))"
    and "hash_key (dict_get d (lit ''mint'') (PyStr [])) = Inr k"
    and "k \<notin> seen_tokens st"
  shows "process_token rt st (PyDict d) =
           Inr \<lparr>seen_tokens = insert k (seen_tokens st),
                trace = trace st @
                  [Send (format_token_message rt (clock rt (length (trace st))) d), Sleep 2]\<rparr>"
  using assms by (simp add: process_token_def emit_def)

lemma process_token_old:
  assumes "hash_key (dict_get d (lit ''mint'') (PyStr [])) = Inr k"
    and "k \<in> seen_tokens st"
  shows "process_token rt st (PyDict d) = Inr st"
  using assms by (simp add: process_token_def Let_def)

lemma process_token_falsy:
  assumes "\<not> py_truthy (dict_get d (lit ''mint'') (PyStr []))"
  shows "process_token rt st (PyDict d) = Inr st"
  using assms by (simp add: process_token_def)

lemma process_token_not_mapping:
  assumes "\<not> is_mapping x"
  shows "process_token rt st x = Inl (NoAttribute x ''get'')"
  using assms by (cases x) (simp_all add: process_token_def)

lemma process_tokens_append:
  "process_tokens rt st (pre @ rest) =
     (case process_tokens rt st pre of
        (st', None) \<Rightarrow> process_tokens rt st' rest
      | (st', Some e) \<Rightarrow> (st', Some e))"
  by (induction pre arbitrary: st) (auto split: sum.splits)

section \<open>Monitor: the batch A, B, A\<close>

lemma mint_only_get: "dict_get (mint_only m) (lit ''mint'') dflt = PyStr (lit m)"
  by (simp add: mint_only_def dict_get_def)

lemma lit_A_B:
  "lit ''A'' \<noteq> lit ''B''" "lit ''B'' \<noteq> lit ''A''" "lit ''A'' \<noteq> []" "lit ''B'' \<noteq> []"
  by (simp_all add: lit_def)

lemma get_new_tokens_feed_ABA:
  "get_new_tokens feed_ABA =
     PyList [PyDict (mint_only ''A''), PyDict (mint_only ''B''), PyDict (mint_only ''A'')]"
  by (simp add: feed_ABA_def get_new_tokens_def get_new_tokens_try_def)

lemma iteration_feed_ABA_first:
  "iteration rt \<lparr>seen_tokens = {}, trace = tr\<rparr> feed_ABA =
     \<lparr>seen_tokens = {KStr (lit ''B''), KStr (lit ''A'')},
      trace = tr @
        [Send (format_token_message rt (clock rt (length tr)) (mint_only ''A'')), Sleep 2,
         Send (format_token_message rt (clock rt (length tr + 2)) (mint_only ''B'')), Sleep 2,
         Sleep 30]\<rparr>"
proof -
  let ?msgA = "format_token_message rt (clock rt (length tr)) (mint_only ''A'')"
  let ?msgB = "format_token_message rt (clock rt (length tr + 2)) (mint_only ''B'')"
  have a: "process_token rt \<lparr>seen_tokens = {}, trace = tr\<rparr> (PyDict (mint_only ''A'')) =
      Inr \<lparr>seen_tokens = {KStr (lit ''A'')}, trace = tr @ [Send ?msgA, Sleep 2]\<rparr>"
    by (simp add: process_token_new [where k = "KStr (lit ''A'')"] mint_only_get lit_A_B)
  have b: "process_token rt
        \<lparr>seen_tokens = {KStr (lit ''A'')}, trace = tr @ [Send ?msgA, Sleep 2]\<rparr>
        (PyDict (mint_only ''B'')) =
      Inr \<lparr>seen_tokens = {KStr (lit ''B''), KStr (lit ''A'')},
           trace = tr @ [Send ?msgA, Sleep 2, Send ?msgB, Sleep 2]\<rparr>"
    by (simp add: process_token_new [where k = "KStr (lit ''B'')"] mint_only_get lit_A_B)
  have c: "process_token rt \<lparr>seen_tokens = {KStr (lit ''B''), KStr (lit ''A'')}, trace = tr'\<rparr>
        (PyDict (mint_only ''A'')) =
      Inr \<lparr>seen_tokens = {KStr (lit ''B''), KStr (lit ''A'')}, trace = tr'\<rparr>" for tr'
    by (simp add: process_token_old [where k = "KStr (lit ''A'')"] mint_only_get)
  show ?thesis
    by (simp add: iteration_def get_new_tokens_feed_ABA a b c emit_def)
qed

lemma iteration_feed_ABA_again:
  "iteration rt \<lparr>seen_tokens = {KStr (lit ''B''), KStr (lit ''A'')}, trace = tr\<rparr> feed_ABA =
     \<lparr>seen_tokens = {KStr (lit ''B''), KStr (lit ''A'')}, trace = tr @ [Sleep 30]\<rparr>"
proof -
  have c: "process_token rt \<lparr>seen_tokens = {KStr (lit ''B''), KStr (lit ''A'')}, trace = tr\<rparr>
        (PyDict (mint_only m)) =
      Inr \<lparr>seen_tokens = {KStr (lit ''B''), KStr (lit ''A'')}, trace = tr\<rparr>"
    if "m = ''A'' \<or> m = ''B''" for m
    using that by (auto simp add: process_token_old [where k = "KStr (lit m)"] mint_only_get)
  show ?thesis
    by (simp add: iteration_def get_new_tokens_feed_ABA c emit_def)
qed

text \<open>
  C1: one pass of the loop over the feed response
  \<open>[{"mint": "A"}, {"mint": "B"}, {"mint": "A"}]\<close>, started with an empty \<open>seen_tokens\<close>
  (and any earlier trace), posts exactly two messages, the one formatted from the record of
  A and then the one formatted from the record of B; a second pass over the same response
  posts none.
\<close>

theorem feed_ABA_notifies_A_then_B_once:
  "notifications (drop (length tr)
     (trace (iteration rt \<lparr>seen_tokens = {}, trace = tr\<rparr> feed_ABA))) =
     [format_token_message rt (clock rt (length tr)) (mint_only ''A''),
      format_token_message rt (clock rt (length tr + 2)) (mint_only ''B'')] \<and>
   notifications (drop (length (trace (iteration rt \<lparr>seen_tokens = {}, trace = tr\<rparr> feed_ABA)))
     (trace (iteration rt (iteration rt \<lparr>seen_tokens = {}, trace = tr\<rparr> feed_ABA) feed_ABA))) = []"
  by (simp add: iteration_feed_ABA_first iteration_feed_ABA_again notifications_def)

section \<open>Monitor: the empty identifier\<close>

lemma hash_key_empty_str: "py_truthy v \<Longrightarrow> hash_key v \<noteq> Inr (KStr [])"
  by (cases v rule: hash_key.cases) auto

lemma process_token_keeps_empty_out:
  "process_token rt st token = Inr st' \<Longrightarrow> KStr [] \<notin> seen_tokens st \<Longrightarrow> KStr [] \<notin> seen_tokens st'"
  using hash_key_empty_str
  by (auto simp: process_token_def emit_def Let_def split: pyval.splits if_splits sum.splits)

lemma process_tokens_keeps_empty_out:
  "KStr [] \<notin> seen_tokens st \<Longrightarrow> KStr [] \<notin> seen_tokens (fst (process_tokens rt st ts))"
  by (induction ts arbitrary: st) (auto split: sum.splits dest: process_token_keeps_empty_out)

lemma iteration_seen:
  "seen_tokens (iteration rt st out) = seen_tokens st \<or>
   (\<exists>ts. seen_tokens (iteration rt st out) = seen_tokens (fst (process_tokens rt st ts)))"
proof (cases "py_truthy (get_new_tokens out)")
  case False
  then show ?thesis by (simp add: iteration_def emit_def)
next
  case True
  show ?thesis
  proof (cases "py_iter (get_new_tokens out)")
    case (Inl e)
    with True show ?thesis by (simp add: iteration_def emit_def)
  next
    case (Inr ts)
    obtain st' r where p: "process_tokens rt st ts = (st', r)" by (cases "process_tokens rt st ts")
    have "seen_tokens (iteration rt st out) = seen_tokens (fst (process_tokens rt st ts))"
      using True Inr p by (cases r) (simp_all add: iteration_def emit_def)
    then show ?thesis by blast
  qed
qed

lemma iteration_keeps_empty_out:
  "KStr [] \<notin> seen_tokens st \<Longrightarrow> KStr [] \<notin> seen_tokens (iteration rt st out)"
  using iteration_seen [of rt st out] process_tokens_keeps_empty_out [of st rt]
  by auto

lemma monitor_loop_keeps_empty_out:
  "KStr [] \<notin> seen_tokens st \<Longrightarrow> KStr [] \<notin> seen_tokens (monitor_loop rt st outs)"
proof (induction outs arbitrary: st)
  case Nil
  then show ?case by simp
next
  case (Cons out outs)
  then show ?case by (simp add: iteration_keeps_empty_out)
qed

text \<open>
  C7: a record whose identifier is missing or empty (more generally, falsy) is passed over:
  processing it raises nothing and returns the monitor state unchanged, so nothing is
  posted and \<open>seen_tokens\<close> stays as it was. The empty string is in \<open>seen_tokens\<close> in no
  state that the monitor reaches from its start, whatever the feed returns, and no batch
  puts it there.
\<close>

theorem empty_identifier_skipped:
  "(\<not> py_truthy (dict_get d (lit ''mint'') (PyStr [])) \<longrightarrow>
      process_token rt st (PyDict d) = Inr st) \<and>
   (map_of d (lit ''mint'') = None \<longrightarrow> process_token rt st (PyDict d) = Inr st) \<and>
   (map_of d (lit ''mint'') = Some (PyStr []) \<longrightarrow> process_token rt st (PyDict d) = Inr st) \<and>
   KStr [] \<notin> seen_tokens (monitor_new_tokens rt outs) \<and>
   (KStr [] \<notin> seen_tokens st \<longrightarrow> KStr [] \<notin> seen_tokens (fst (process_tokens rt st ts)))"
proof (intro conjI impI)
  show "KStr [] \<notin> seen_tokens (monitor_new_tokens rt outs)"
    unfolding monitor_new_tokens_def
    by (rule monitor_loop_keeps_empty_out) (simp add: emit_def init_monitor_def)
qed (simp_all add: process_token_falsy dict_get_def process_tokens_keeps_empty_out)

theorem empty_identifier_skipped_witness:
  "process_token demo_runtime \<lparr>seen_tokens = {KStr (lit ''A'')}, trace = []\<rparr>
      (PyDict [(lit ''name'', PyStr (lit ''x''))]) =
     Inr \<lparr>seen_tokens = {KStr (lit ''A'')}, trace = []\<rparr> \<and>
   process_token demo_runtime \<lparr>seen_tokens = {KStr (lit ''A'')}, trace = []\<rparr>
      (PyDict [(lit ''mint'', PyStr [])]) =
     Inr \<lparr>seen_tokens = {KStr (lit ''A'')}, trace = []\<rparr> \<and>
   KStr [] \<notin> seen_tokens (monitor_new_tokens demo_runtime
      [Response 200 (Inr (PyList [PyDict [(lit ''mint'', PyStr [])], PyDict (mint_only ''A'')]))]) \<and>
   KStr [] \<notin> seen_tokens (fst (process_tokens demo_runtime
      \<lparr>seen_tokens = {KStr (lit ''A'')}, trace = []\<rparr> [PyDict [(lit ''mint'', PyStr [])]]))"
  using empty_identifier_skipped
      [of "[(lit ''name'', PyStr (lit ''x''))]" demo_runtime
          "\<lparr>seen_tokens = {KStr (lit ''A'')}, trace = []\<rparr>"
          "[Response 200 (Inr (PyList [PyDict [(lit ''mint'', PyStr [])], PyDict (mint_only ''A'')]))]"
          "[PyDict [(lit ''mint'', PyStr [])]]"]
    empty_identifier_skipped
      [of "[(lit ''mint'', PyStr [])]" demo_runtime
          "\<lparr>seen_tokens = {KStr (lit ''A'')}, trace = []\<rparr>"
          "[]" "[]"]
  by (simp add: lit_def dict_get_def)

section \<open>Monitor: an element that is not a mapping\<close>

text \<open>
  C10: when the feed returns a list with an element \<open>x\<close> that is not a mapping, after
  records \<open>pre\<close> that are processed without an exception, the \<open>for\<close> loop stops at \<open>x\<close>
  with the AttributeError of \<open>x.get\<close>: the state is the one reached after \<open>pre\<close>, the
  records \<open>post\<close> after \<open>x\<close> are not processed, the pass ends with the pause of 60
  seconds, and the loop goes on with the next pass from that state.
\<close>

theorem non_mapping_stops_batch:
  assumes "process_tokens rt st pre = (st', None)" and "\<not> is_mapping x"
  shows "process_tokens rt st (pre @ x # post) = (st', Some (NoAttribute x ''get'')) \<and>
         iteration rt st (Response 200 (Inr (PyList (pre @ x # post)))) = emit (Sleep 60) st' \<and>
         monitor_loop rt st (Response 200 (Inr (PyList (pre @ x # post))) # outs) =
           monitor_loop rt (emit (Sleep 60) st') outs"
proof -
  have p: "process_tokens rt st (pre @ x # post) = (st', Some (NoAttribute x ''get''))"
    using assms by (simp add: process_tokens_append process_token_not_mapping)
  have i: "iteration rt st (Response 200 (Inr (PyList (pre @ x # post)))) = emit (Sleep 60) st'"
    by (simp add: iteration_def get_new_tokens_def get_new_tokens_try_def p)
  show ?thesis using p i by simp
qed

theorem non_mapping_stops_batch_witness:
  "process_tokens demo_runtime \<lparr>seen_tokens = {}, trace = []\<rparr> [PyDict (mint_only ''A'')] =
     (\<lparr>seen_tokens = {KStr (lit ''A'')},
       trace = [Send (format_token_message demo_runtime (clock demo_runtime 0) (mint_only ''A'')),
                Sleep 2]\<rparr>, None) \<and>
   \<not> is_mapping (PyStr (lit ''oops'')) \<and>
   iteration demo_runtime \<lparr>seen_tokens = {}, trace = []\<rparr>
     (Response 200 (Inr (PyList ([PyDict (mint_only ''A'')] @ PyStr (lit ''oops'') # [PyDict (mint_only ''B'')])))) =
     \<lparr>seen_tokens = {KStr (lit ''A'')},
       trace = [Send (format_token_message demo_runtime (clock demo_runtime 0) (mint_only ''A'')),
                Sleep 2, Sleep 60]\<rparr>"
proof -
  have a: "process_tokens demo_runtime \<lparr>seen_tokens = {}, trace = []\<rparr> [PyDict (mint_only ''A'')] =
     (\<lparr>seen_tokens = {KStr (lit ''A'')},
       trace = [Send (format_token_message demo_runtime (clock demo_runtime 0) (mint_only ''A'')),
                Sleep 2]\<rparr>, None)"
    by (simp add: process_token_new [where k = "KStr (lit ''A'')"] mint_only_get lit_A_B)
  have b: "\<not> is_mapping (PyStr (lit ''oops''))" by simp
  show ?thesis
    using non_mapping_stops_batch [OF a b, of "[PyDict (mint_only ''B'')]" "[]"] a
    by (simp add: emit_def)
qed

section \<open>Formatter: the shape of the message\<close>

lemma format_body_Inr:
  assumes "format_body rt now d = Inr m"
  obtains market_cap_f price_f segment where
    "market_cap_formatted (dict_get d (lit ''usd_market_cap'') (PyInt 0)) = Inr market_cap_f"
    "price_formatted rt (dict_get d (lit ''price_usd'') (PyInt 0)) = Inr price_f"
    "description_segment rt
       (dict_get d (lit ''description'') (PyStr (lit ''No description available''))) = Inr segment"
    "m = message_head
           (py_str rt (dict_get d (lit ''name'') (PyStr (lit ''Unknown''))))
           (py_str rt (dict_get d (lit ''symbol'') (PyStr (lit ''N/A''))))
           (py_str rt (dict_get d (lit ''mint'') (PyStr (lit ''N/A''))))
           (py_str rt (dict_get d (lit ''creator'') (PyStr (lit ''Unknown''))))
           price_f market_cap_f @
         segment @
         message_links (py_str rt (dict_get d (lit ''mint'') (PyStr (lit ''N/A'')))) @
         social_link rt ''Website'' (dict_get d (lit ''website'') (PyStr [])) @
         social_link rt ''Twitter'' (dict_get d (lit ''twitter'') (PyStr [])) @
         social_link rt ''Telegram'' (dict_get d (lit ''telegram'') (PyStr [])) @
         message_footer now"
  using assms unfolding format_body_def Let_def
  by (auto split: sum.splits)

lemma format_body_market_cap_error:
  assumes "market_cap_formatted (dict_get d (lit ''usd_market_cap'') (PyInt 0)) = Inl e"
  shows "format_body rt now d = Inl e"
  using assms by (simp add: format_body_def)

lemma format_body_price_error:
  assumes "market_cap_formatted (dict_get d (lit ''usd_market_cap'') (PyInt 0)) = Inr s"
    and "price_formatted rt (dict_get d (lit ''price_usd'') (PyInt 0)) = Inl e"
  shows "format_body rt now d = Inl e"
  using assms by (simp add: format_body_def)

lemma format_token_message_ok:
  assumes "format_body rt now d = Inr msg"
  shows "format_token_message rt now d = msg"
  using assms by (simp add: format_token_message_def)

section \<open>Formatter: values that cannot be formatted\<close>

lemma market_cap_not_number:
  assumes "py_truthy mc" and "\<not> is_number mc"
  shows "market_cap_formatted mc = Inl (BadFormatSpec mc)"
  using assms by (cases mc) (simp_all add: market_cap_formatted_def)

text \<open>
  C8: when \<open>usd_market_cap\<close> is truthy and not a number (a non-empty string, list or
  mapping; a bool is an int for Python and is formatted), formatting it raises, and
  \<open>format_token_message\<close> returns the fallback text \<open>Error formatting token data:\<close> followed
  by the description of that exception: neither a formatted market cap nor \<open>N/A\<close>.
\<close>

theorem non_numeric_market_cap_fallback:
  assumes "py_truthy (dict_get d (lit ''usd_market_cap'') (PyInt 0))"
    and "\<not> is_number (dict_get d (lit ''usd_market_cap'') (PyInt 0))"
  shows "format_body rt now d = Inl (BadFormatSpec (dict_get d (lit ''usd_market_cap'') (PyInt 0))) \<and>
         format_token_message rt now d =
           lit ''Error formatting token data: '' @
           exc_str rt (BadFormatSpec (dict_get d (lit ''usd_market_cap'') (PyInt 0)))"
  using format_body_market_cap_error [OF market_cap_not_number [OF assms]]
  by (simp add: format_token_message_def)

theorem non_numeric_market_cap_fallback_witness:
  "py_truthy (dict_get [(lit ''mint'', PyStr (lit ''A'')), (lit ''usd_market_cap'', PyStr (lit ''12k''))]
      (lit ''usd_market_cap'') (PyInt 0)) \<and>
   \<not> is_number (dict_get [(lit ''mint'', PyStr (lit ''A'')), (lit ''usd_market_cap'', PyStr (lit ''12k''))]
      (lit ''usd_market_cap'') (PyInt 0)) \<and>
   format_token_message demo_runtime (lit ''2024-01-01 00:00:00 UTC'')
     [(lit ''mint'', PyStr (lit ''A'')), (lit ''usd_market_cap'', PyStr (lit ''12k''))] =
     lit ''Error formatting token data: '' @ lit ''<exception>''"
proof -
  have g: "dict_get [(lit ''mint'', PyStr (lit ''A'')), (lit ''usd_market_cap'', PyStr (lit ''12k''))]
      (lit ''usd_market_cap'') (PyInt 0) = PyStr (lit ''12k'')"
    by (simp add: dict_get_def lit_def)
  have t: "py_truthy (dict_get [(lit ''mint'', PyStr (lit ''A'')), (lit ''usd_market_cap'', PyStr (lit ''12k''))]
      (lit ''usd_market_cap'') (PyInt 0))"
    unfolding g by (simp add: lit_def)
  have n: "\<not> is_number (dict_get [(lit ''mint'', PyStr (lit ''A'')), (lit ''usd_market_cap'', PyStr (lit ''12k''))]
      (lit ''usd_market_cap'') (PyInt 0))"
    unfolding g by simp
  show ?thesis
    using non_numeric_market_cap_fallback [OF t n, of demo_runtime "lit ''2024-01-01 00:00:00 UTC''"] t n
    by (simp add: demo_runtime_def)
qed

lemma price_unconvertible:
  assumes "py_truthy pr" and "py_float rt pr = Inl e"
  shows "price_formatted rt pr = Inl e"
  using assms by (simp add: price_formatted_def)

text \<open>
  C5: when \<open>price_usd\<close> is truthy and \<open>float(price)\<close> raises, the price is not taken as
  zero: the body of \<open>format_token_message\<close> fails with an exception (the one of the market
  cap when that already failed, the one of \<open>float(price)\<close> otherwise), the function
  returns \<open>Error formatting token data:\<close> followed by the description of that exception,
  and for a record with a new identifier the monitor posts exactly this text.
\<close>

theorem unconvertible_price_fallback:
  assumes "py_truthy (dict_get d (lit ''price_usd'') (PyInt 0))"
    and "py_float rt (dict_get d (lit ''price_usd'') (PyInt 0)) = Inl e"
    and "err = (case market_cap_formatted (dict_get d (lit ''usd_market_cap'') (PyInt 0)) of
                  Inl e0 \<Rightarrow> e0 | Inr s \<Rightarrow> e)"
  shows "format_body rt now d = Inl err \<and>
         format_token_message rt now d = lit ''Error formatting token data: '' @ exc_str rt err \<and>
         (py_truthy (dict_get d (lit ''mint'') (PyStr [])) \<and>
          hash_key (dict_get d (lit ''mint'') (PyStr [])) = Inr k \<and> k \<notin> seen_tokens st \<longrightarrow>
            process_token rt st (PyDict d) =
              Inr \<lparr>seen_tokens = insert k (seen_tokens st),
                   trace = trace st @
                     [Send (lit ''Error formatting token data: '' @ exc_str rt err), Sleep 2]\<rparr>)"
proof -
  have b: "format_body rt now d = Inl err" for now
  proof (cases "market_cap_formatted (dict_get d (lit ''usd_market_cap'') (PyInt 0))")
    case (Inl e0)
    then show ?thesis using assms(3) by (simp add: format_body_market_cap_error)
  next
    case (Inr s)
    then show ?thesis
      using assms(3) format_body_price_error [OF Inr price_unconvertible [OF assms(1,2)]]
      by simp
  qed
  have m: "format_token_message rt now d = lit ''Error formatting token data: '' @ exc_str rt err"
    for now
    by (simp add: format_token_message_def b)
  show ?thesis
    using b m by (simp add: process_token_new)
qed

section \<open>Formatter: description and placeholders\<close>

lemma py_str_PyStr: "py_str rt (PyStr s) = s"
  by (simp add: py_str_def)

text \<open>
  C6: for a record whose description is a string \<open>s\<close> (the placeholder when the key is
  absent) and whose other fields can be formatted, \<open>format_token_message\<close> returns the
  message that carries, between the description heading and the links,
  the first 200 characters of \<open>s\<close> followed by \<open>...\<close> when \<open>s\<close> is longer than 200
  characters, and \<open>s\<close> itself with no marker when its length is at most 200.
\<close>

theorem description_truncated_at_200:
  assumes "format_body rt now d = Inr msg"
    and "dict_get d (lit ''description'') (PyStr (lit ''No description available'')) = PyStr s"
  shows "format_token_message rt now d = msg \<and>
         (\<exists>price_f market_cap_f.
            msg =
              message_head
                (py_str rt (dict_get d (lit ''name'') (PyStr (lit ''Unknown''))))
                (py_str rt (dict_get d (lit ''symbol'') (PyStr (lit ''N/A''))))
                (py_str rt (dict_get d (lit ''mint'') (PyStr (lit ''N/A''))))
                (py_str rt (dict_get d (lit ''creator'') (PyStr (lit ''Unknown''))))
                price_f market_cap_f @
              (take 200 s @ (if 200 < length s then lit ''...'' else [])) @
              message_links (py_str rt (dict_get d (lit ''mint'') (PyStr (lit ''N/A'')))) @
              social_link rt ''Website'' (dict_get d (lit ''website'') (PyStr [])) @
              social_link rt ''Twitter'' (dict_get d (lit ''twitter'') (PyStr [])) @
              social_link rt ''Telegram'' (dict_get d (lit ''telegram'') (PyStr [])) @
              message_footer now) \<and>
         (length s \<le> 200 \<longrightarrow> take 200 s @ (if 200 < length s then lit ''...'' else []) = s) \<and>
         (200 < length s \<longrightarrow>
            take 200 s @ (if 200 < length s then lit ''...'' else []) = take 200 s @ lit ''...'' \<and>
            length (take 200 s) = 200)"
proof -
  from assms(1) obtain market_cap_f price_f segment where
    seg: "description_segment rt
       (dict_get d (lit ''description'') (PyStr (lit ''No description available''))) = Inr segment"
    and msg: "msg = message_head
           (py_str rt (dict_get d (lit ''name'') (PyStr (lit ''Unknown''))))
           (py_str rt (dict_get d (lit ''symbol'') (PyStr (lit ''N/A''))))
           (py_str rt (dict_get d (lit ''mint'') (PyStr (lit ''N/A''))))
           (py_str rt (dict_get d (lit ''creator'') (PyStr (lit ''Unknown''))))
           price_f market_cap_f @
         segment @
         message_links (py_str rt (dict_get d (lit ''mint'') (PyStr (lit ''N/A'')))) @
         social_link rt ''Website'' (dict_get d (lit ''website'') (PyStr [])) @
         social_link rt ''Twitter'' (dict_get d (lit ''twitter'') (PyStr [])) @
         social_link rt ''Telegram'' (dict_get d (lit ''telegram'') (PyStr [])) @
         message_footer now"
    by (rule format_body_Inr)
  from seg assms(2) have "segment = take 200 s @ (if 200 < length s then lit ''...'' else [])"
    by simp
  with msg format_token_message_ok [OF assms(1)] show ?thesis by auto
qed

lemma format_body_mint_only:
  "format_body rt now (mint_only m @ [(lit ''description'', PyStr s)]) =
     Inr (message_head (lit ''Unknown'') (lit ''N/A'') (lit m) (lit ''Unknown'') (lit ''N/A'') (lit ''N/A'') @
          (take 200 s @ (if 200 < length s then lit ''...'' else [])) @
          message_links (lit m) @ message_footer now)"
  by (simp add: format_body_def mint_only_def dict_get_def lit_def market_cap_formatted_def
        price_formatted_def py_str_def social_link_def)


theorem description_truncated_at_200_witness:
  "format_body demo_runtime (lit ''2024-01-01 00:00:00 UTC'')
      (mint_only ''A'' @ [(lit ''description'', PyStr (replicate 250 120))]) =
     Inr (message_head (lit ''Unknown'') (lit ''N/A'') (lit ''A'') (lit ''Unknown'') (lit ''N/A'')
            (lit ''N/A'') @
          (replicate 200 120 @ lit ''...'') @
          message_links (lit ''A'') @ message_footer (lit ''2024-01-01 00:00:00 UTC'')) \<and>
   format_token_message demo_runtime (lit ''2024-01-01 00:00:00 UTC'')
      (mint_only ''A'' @ [(lit ''description'', PyStr (replicate 250 120))]) =
     message_head (lit ''Unknown'') (lit ''N/A'') (lit ''A'') (lit ''Unknown'') (lit ''N/A'')
       (lit ''N/A'') @
     (replicate 200 120 @ lit ''...'') @
     message_links (lit ''A'') @ message_footer (lit ''2024-01-01 00:00:00 UTC'') \<and>
   format_token_message demo_runtime (lit ''2024-01-01 00:00:00 UTC'')
      (mint_only ''A'' @ [(lit ''description'', PyStr (replicate 150 120))]) =
     message_head (lit ''Unknown'') (lit ''N/A'') (lit ''A'') (lit ''Unknown'') (lit ''N/A'')
       (lit ''N/A'') @
     replicate 150 120 @
     message_links (lit ''A'') @ message_footer (lit ''2024-01-01 00:00:00 UTC'') \<and>
   dict_get (mint_only ''A'' @ [(lit ''description'', PyStr (replicate 250 120))])
      (lit ''description'') (PyStr (lit ''No description available'')) = PyStr (replicate 250 120) \<and>
   take 200 (replicate 250 (120::nat)) @ (if 200 < length (replicate 250 (120::nat)) then lit ''...'' else []) =
     replicate 200 120 @ lit ''...'' \<and>
   format_body demo_runtime (lit ''2024-01-01 00:00:00 UTC'')
      (mint_only ''A'' @ [(lit ''description'', PyStr (replicate 150 120))]) =
     Inr (message_head (lit ''Unknown'') (lit ''N/A'') (lit ''A'') (lit ''Unknown'') (lit ''N/A'')
            (lit ''N/A'') @
          replicate 150 120 @
          message_links (lit ''A'') @ message_footer (lit ''2024-01-01 00:00:00 UTC'')) \<and>
   take 200 (replicate 150 (120::nat)) @ (if 200 < length (replicate 150 (120::nat)) then lit ''...'' else []) =
     replicate 150 120"
proof -
  have b: "format_body demo_runtime (lit ''2024-01-01 00:00:00 UTC'')
      (mint_only ''A'' @ [(lit ''description'', PyStr (replicate n 120))]) =
     Inr (message_head (lit ''Unknown'') (lit ''N/A'') (lit ''A'') (lit ''Unknown'') (lit ''N/A'')
            (lit ''N/A'') @
          (take 200 (replicate n 120) @ (if 200 < length (replicate n (120::nat)) then lit ''...'' else [])) @
          message_links (lit ''A'') @ message_footer (lit ''2024-01-01 00:00:00 UTC''))" for n
    by (rule format_body_mint_only)
  have g: "dict_get (mint_only ''A'' @ [(lit ''description'', PyStr (replicate n 120))])
      (lit ''description'') (PyStr (lit ''No description available'')) = PyStr (replicate n 120)" for n
    by (simp add: dict_get_def mint_only_def lit_def)
  show ?thesis
    using description_truncated_at_200 [OF b [of 250] g [of 250]]
          description_truncated_at_200 [OF b [of 150] g [of 150]] b [of 250] b [of 150] g [of 250]
    by simp
qed

theorem unconvertible_price_fallback_witness:
  "py_truthy (dict_get (mint_only ''A'' @ [(lit ''price_usd'', PyStr (lit ''abc''))])
      (lit ''price_usd'') (PyInt 0)) \<and>
   py_float demo_runtime (dict_get (mint_only ''A'' @ [(lit ''price_usd'', PyStr (lit ''abc''))])
      (lit ''price_usd'') (PyInt 0)) = Inl (NotAFloat (PyStr (lit ''abc''))) \<and>
   format_token_message demo_runtime (lit ''2024-01-01 00:00:00 UTC'')
      (mint_only ''A'' @ [(lit ''price_usd'', PyStr (lit ''abc''))]) =
     lit ''Error formatting token data: '' @ lit ''<exception>'' \<and>
   process_token demo_runtime \<lparr>seen_tokens = {}, trace = []\<rparr>
      (PyDict (mint_only ''A'' @ [(lit ''price_usd'', PyStr (lit ''abc''))])) =
     Inr \<lparr>seen_tokens = {KStr (lit ''A'')},
          trace = [Send (lit ''Error formatting token data: '' @ lit ''<exception>''), Sleep 2]\<rparr>"
proof -
  let ?d = "mint_only ''A'' @ [(lit ''price_usd'', PyStr (lit ''abc''))]"
  have g: "dict_get ?d (lit ''price_usd'') (PyInt 0) = PyStr (lit ''abc'')"
    by (simp add: dict_get_def mint_only_def lit_def)
  have t: "py_truthy (dict_get ?d (lit ''price_usd'') (PyInt 0))"
    unfolding g by (simp add: lit_def)
  have f: "py_float demo_runtime (dict_get ?d (lit ''price_usd'') (PyInt 0)) =
      Inl (NotAFloat (PyStr (lit ''abc'')))"
    unfolding g by (simp add: demo_runtime_def)
  have c: "dict_get ?d (lit ''usd_market_cap'') (PyInt 0) = PyInt 0"
    by (simp add: dict_get_def mint_only_def lit_def)
  have e: "NotAFloat (PyStr (lit ''abc'')) =
      (case market_cap_formatted (dict_get ?d (lit ''usd_market_cap'') (PyInt 0)) of
         Inl e0 \<Rightarrow> e0 | Inr s \<Rightarrow> NotAFloat (PyStr (lit ''abc'')))"
    unfolding c by (simp add: market_cap_formatted_def)
  have m: "dict_get ?d (lit ''mint'') (PyStr []) = PyStr (lit ''A'')"
    by (simp add: dict_get_def mint_only_def)
  show ?thesis
    using unconvertible_price_fallback [OF t f e, of "lit ''2024-01-01 00:00:00 UTC''"
        "KStr (lit ''A'')" "\<lparr>seen_tokens = {}, trace = []\<rparr>"] t f
    by (simp add: m lit_A_B demo_runtime_def)
qed

text \<open>
  C9: in the message that \<open>format_token_message\<close> returns when formatting succeeds, the
  name, symbol, contract, creator and description are the
  placeholders \<open>Unknown\<close>, \<open>N/A\<close>, \<open>N/A\<close>, \<open>Unknown\<close> and \<open>No description available\<close> only
  when the key is absent from the record; a key that is present is rendered from its
  value, and a value that is the empty string is rendered as the empty string.
\<close>

theorem placeholders_only_for_absent_keys:
  assumes "format_body rt now d = Inr msg"
  shows "format_token_message rt now d = msg \<and>
    (\<exists>name symbol mint creator price_f market_cap_f segment.
      msg = message_head name symbol mint creator price_f market_cap_f @ segment @
            message_links mint @
            social_link rt ''Website'' (dict_get d (lit ''website'') (PyStr [])) @
            social_link rt ''Twitter'' (dict_get d (lit ''twitter'') (PyStr [])) @
            social_link rt ''Telegram'' (dict_get d (lit ''telegram'') (PyStr [])) @
            message_footer now \<and>
      name = (case map_of d (lit ''name'') of
                None \<Rightarrow> lit ''Unknown'' | Some v \<Rightarrow> py_str rt v) \<and>
      symbol = (case map_of d (lit ''symbol'') of
                None \<Rightarrow> lit ''N/A'' | Some v \<Rightarrow> py_str rt v) \<and>
      mint = (case map_of d (lit ''mint'') of
                None \<Rightarrow> lit ''N/A'' | Some v \<Rightarrow> py_str rt v) \<and>
      creator = (case map_of d (lit ''creator'') of
                None \<Rightarrow> lit ''Unknown'' | Some v \<Rightarrow> py_str rt v) \<and>
      Inr segment = (case map_of d (lit ''description'') of
                None \<Rightarrow> Inr (lit ''No description available'')
              | Some v \<Rightarrow> description_segment rt v) \<and>
      (map_of d (lit ''name'') = Some (PyStr []) \<longrightarrow> name = []) \<and>
      (map_of d (lit ''symbol'') = Some (PyStr []) \<longrightarrow> symbol = []) \<and>
      (map_of d (lit ''mint'') = Some (PyStr []) \<longrightarrow> mint = []) \<and>
      (map_of d (lit ''creator'') = Some (PyStr []) \<longrightarrow> creator = []) \<and>
      (map_of d (lit ''description'') = Some (PyStr []) \<longrightarrow> segment = []))"
proof -
  from assms obtain market_cap_f price_f segment where
    seg: "description_segment rt
       (dict_get d (lit ''description'') (PyStr (lit ''No description available''))) = Inr segment"
    and msg: "msg = message_head
           (py_str rt (dict_get d (lit ''name'') (PyStr (lit ''Unknown''))))
           (py_str rt (dict_get d (lit ''symbol'') (PyStr (lit ''N/A''))))
           (py_str rt (dict_get d (lit ''mint'') (PyStr (lit ''N/A''))))
           (py_str rt (dict_get d (lit ''creator'') (PyStr (lit ''Unknown''))))
           price_f market_cap_f @
         segment @
         message_links (py_str rt (dict_get d (lit ''mint'') (PyStr (lit ''N/A'')))) @
         social_link rt ''Website'' (dict_get d (lit ''website'') (PyStr [])) @
         social_link rt ''Twitter'' (dict_get d (lit ''twitter'') (PyStr [])) @
         social_link rt ''Telegram'' (dict_get d (lit ''telegram'') (PyStr [])) @
         message_footer now"
    by (rule format_body_Inr)
  have fld: "py_str rt (dict_get d k (PyStr dflt)) =
      (case map_of d k of None \<Rightarrow> dflt | Some v \<Rightarrow> py_str rt v)" for k dflt
    by (simp add: dict_get_def py_str_def split: option.splits)
  have len: "length (lit ''No description available'') \<le> 200"
    by (simp add: lit_def)
  have sg: "Inr segment = (case map_of d (lit ''description'') of
                None \<Rightarrow> Inr (lit ''No description available'')
              | Some v \<Rightarrow> description_segment rt v)"
    using seg len by (auto simp: dict_get_def split: option.splits)
  have e: "map_of d (lit ''description'') = Some (PyStr []) \<longrightarrow> segment = []"
    using sg by auto
  show ?thesis
    apply (rule conjI)
     apply (rule format_token_message_ok [OF assms])
    apply (rule exI [of _ "py_str rt (dict_get d (lit ''name'') (PyStr (lit ''Unknown'')))"])
    apply (rule exI [of _ "py_str rt (dict_get d (lit ''symbol'') (PyStr (lit ''N/A'')))"])
    apply (rule exI [of _ "py_str rt (dict_get d (lit ''mint'') (PyStr (lit ''N/A'')))"])
    apply (rule exI [of _ "py_str rt (dict_get d (lit ''creator'') (PyStr (lit ''Unknown'')))"])
    apply (rule exI [of _ price_f])
    apply (rule exI [of _ market_cap_f])
    apply (rule exI [of _ segment])
    using msg sg e by (simp add: fld py_str_PyStr)
qed

theorem placeholders_only_for_absent_keys_witness:
  "format_body demo_runtime (lit ''2024-01-01 00:00:00 UTC'')
      [(lit ''name'', PyStr []), (lit ''description'', PyStr [])] =
     Inr (message_head [] (lit ''N/A'') (lit ''N/A'') (lit ''Unknown'') (lit ''N/A'') (lit ''N/A'') @
          [] @ message_links (lit ''N/A'') @ message_footer (lit ''2024-01-01 00:00:00 UTC'')) \<and>
   format_token_message demo_runtime (lit ''2024-01-01 00:00:00 UTC'')
      [(lit ''name'', PyStr []), (lit ''description'', PyStr [])] =
     message_head [] (lit ''N/A'') (lit ''N/A'') (lit ''Unknown'') (lit ''N/A'') (lit ''N/A'') @
     [] @ message_links (lit ''N/A'') @ message_footer (lit ''2024-01-01 00:00:00 UTC'') \<and>
   (\<exists>price_f market_cap_f.
      message_head [] (lit ''N/A'') (lit ''N/A'') (lit ''Unknown'') (lit ''N/A'') (lit ''N/A'') @
        [] @ message_links (lit ''N/A'') @ message_footer (lit ''2024-01-01 00:00:00 UTC'') =
      message_head [] (lit ''N/A'') (lit ''N/A'') (lit ''Unknown'') price_f market_cap_f @
        [] @ message_links (lit ''N/A'') @ message_footer (lit ''2024-01-01 00:00:00 UTC''))"
proof -
  let ?d = "[(lit ''name'', PyStr []), (lit ''description'', PyStr [])]"
  have b: "format_body demo_runtime (lit ''2024-01-01 00:00:00 UTC'') ?d =
     Inr (message_head [] (lit ''N/A'') (lit ''N/A'') (lit ''Unknown'') (lit ''N/A'') (lit ''N/A'') @
          [] @ message_links (lit ''N/A'') @ message_footer (lit ''2024-01-01 00:00:00 UTC''))"
    by (simp add: format_body_def dict_get_def lit_def market_cap_formatted_def
        price_formatted_def py_str_def social_link_def)
  have k: "map_of ?d (lit ''name'') = Some (PyStr [])"
      "map_of ?d (lit ''symbol'') = None"
      "map_of ?d (lit ''mint'') = None"
      "map_of ?d (lit ''creator'') = None"
      "map_of ?d (lit ''description'') = Some (PyStr [])"
      "dict_get ?d (lit ''website'') (PyStr []) = PyStr []"
      "dict_get ?d (lit ''twitter'') (PyStr []) = PyStr []"
      "dict_get ?d (lit ''telegram'') (PyStr []) = PyStr []"
    by (simp_all add: lit_def dict_get_def)
  show ?thesis
    using placeholders_only_for_absent_keys [OF b] b
    unfolding k
    by (auto simp add: social_link_def py_str_PyStr)
qed

section \<open>Formatter: market cap and price\<close>

lemma digits_nonempty: "digits n \<noteq> []"
  by (subst digits.simps) simp

lemma digits_all_digit: "list_all is_digit (digits n)"
proof (induction n rule: digits.induct)
  case (1 n)
  show ?case
  proof (cases "n < 10")
    case True
    then show ?thesis by (subst digits.simps) (simp add: is_digit_def)
  next
    case False
    have "n mod 10 < 10" by simp
    then have "is_digit (48 + n mod 10)" unfolding is_digit_def by linarith
    with False 1 show ?thesis by (subst digits.simps) simp
  qed
qed

lemma length_digits: "n < 10 ^ p \<Longrightarrow> 0 < p \<Longrightarrow> length (digits n) \<le> p"
proof (induction p arbitrary: n)
  case 0
  then show ?case by simp
next
  case (Suc q)
  show ?case
  proof (cases "n < 10")
    case True
    then show ?thesis by (subst digits.simps) simp
  next
    case False
    with Suc.prems have q: "0 < q" by (cases q) auto
    from Suc.prems have "n div 10 < 10 ^ q"
      by (simp add: less_mult_imp_div_less mult.commute)
    from Suc.IH [OF this q] False show ?thesis by (subst digits.simps) simp
  qed
qed

lemma pad_digits_length: "n < 10 ^ p \<Longrightarrow> 0 < p \<Longrightarrow> length (pad_digits p n) = p"
  using length_digits [of n p] by (simp add: pad_digits_def)

lemma pad_digits_all_digit: "list_all is_digit (pad_digits p n)"
  using digits_all_digit [of n] by (auto simp: pad_digits_def list_all_iff is_digit_def)

lemma grouped_rev_short:
  "xs \<noteq> [] \<Longrightarrow> length xs \<le> 3 \<Longrightarrow> list_all is_digit xs \<Longrightarrow> grouped_rev xs"
  by (cases xs rule: grouped_rev.cases) simp_all

lemma group3_nonempty: "ds \<noteq> [] \<Longrightarrow> group3 ds \<noteq> []"
  by (subst group3.simps) simp

lemma hd_group3: "ds \<noteq> [] \<Longrightarrow> hd (group3 ds) = hd ds"
proof (induction ds rule: group3.induct)
  case (1 ds)
  show ?case
  proof (cases "length ds \<le> 3")
    case True
    then show ?thesis by (subst group3.simps) simp
  next
    case False
    then have ne: "take (length ds - 3) ds \<noteq> []" by (cases ds) auto
    have "hd (group3 ds) = hd (group3 (take (length ds - 3) ds))"
      using False group3_nonempty [OF ne] by (subst group3.simps) simp
    also have "\<dots> = hd (take (length ds - 3) ds)" using 1 False ne by simp
    also have "\<dots> = hd ds" using ne by (cases ds) auto
    finally show ?thesis .
  qed
qed

lemma grouped_group3:
  "ds \<noteq> [] \<Longrightarrow> list_all is_digit ds \<Longrightarrow> grouped_rev (rev (group3 ds))"
proof (induction ds rule: group3.induct)
  case (1 ds)
  show ?case
  proof (cases "length ds \<le> 3")
    case True
    with 1(2,3) show ?thesis
      by (subst group3.simps) (simp add: grouped_rev_short)
  next
    case False
    let ?k = "length ds - 3"
    have ne: "take ?k ds \<noteq> []" using False by (cases ds) auto
    have dg: "list_all is_digit (take ?k ds)" "list_all is_digit (drop ?k ds)"
      using 1(3) by (auto simp: list_all_iff dest: in_set_takeD in_set_dropD)
    have ih: "grouped_rev (rev (group3 (take ?k ds)))"
      using 1(1) [OF False ne dg(1)] .
    have "length (rev (drop ?k ds)) = 3" using False by simp
    then obtain a b c where abc: "rev (drop ?k ds) = [a, b, c]"
      by (cases "rev (drop ?k ds)" rule: grouped_rev.cases) auto
    have "list_all is_digit (rev (drop ?k ds))" using dg(2) by (simp add: list_all_iff)
    with abc have d3: "is_digit a" "is_digit b" "is_digit c" by simp_all
    have "rev (group3 ds) = [a, b, c] @ [44] @ rev (group3 (take ?k ds))"
      using False abc by (subst group3.simps) simp
    with d3 ih show ?thesis by simp
  qed
qed

lemma decimal_shape_parts:
  assumes "ip \<noteq> []" and "length fp = p"
    and "list_all is_digit fp"
    and "if grp then grouped_rev (rev ip) else list_all is_digit ip"
  shows "decimal_shape grp p (ip @ [46] @ fp)"
  using assms by (auto simp: decimal_shape_def Let_def nth_append)


lemma fixed_point_shape:
  assumes "0 < p"
  shows "money_shape grp p (lit ''$'' @ fixed_point grp p (Finite s m e))"
proof -
  define n where "n = scaled p m e"
  define ip where "ip = (if grp then group3 (digits (n div 10 ^ p)) else digits (n div 10 ^ p))"
  define fp where "fp = pad_digits p (n mod 10 ^ p)"
  have ne: "ip \<noteq> []"
    by (simp add: ip_def digits_nonempty group3_nonempty)
  have hd_ip: "hd ip = hd (digits (n div 10 ^ p))"
    by (simp add: ip_def hd_group3 digits_nonempty)
  have "hd (digits (n div 10 ^ p)) \<in> set (digits (n div 10 ^ p))"
    by (simp add: digits_nonempty)
  with digits_all_digit [of "n div 10 ^ p"] have "is_digit (hd ip)"
    unfolding hd_ip by (simp add: list_all_iff)
  then have not_minus: "hd ip \<noteq> 45" by (auto simp: is_digit_def)
  have len: "length fp = p"
    unfolding fp_def using assms by (intro pad_digits_length) simp_all
  have "if grp then grouped_rev (rev ip) else list_all is_digit ip"
    by (simp add: ip_def grouped_group3 digits_nonempty digits_all_digit)
  with ne len have body: "decimal_shape grp p (ip @ [46] @ fp)"
    by (intro decimal_shape_parts) (simp_all add: fp_def pad_digits_all_digit)
  have fx: "fixed_point grp p (Finite s m e) = (if s then [45] else []) @ ip @ [46] @ fp"
    by (simp add: n_def ip_def fp_def lit_def Let_def)
  obtain x u where xu: "ip = x # u" using ne by (cases ip) auto
  with not_minus have "x \<noteq> 45" by simp
  with body xu show ?thesis
    unfolding fx by (cases s) (simp_all add: money_shape_def lit_def)
qed

lemma format_f_number:
  assumes "is_number v" and "py_float rt v = Inr f"
  shows "format_f grp p v = Inr (fixed_point grp p f)"
  using assms by (cases v) simp_all

lemma digits_lt10: "n < 10 \<Longrightarrow> digits n = [48 + n]"
  by (subst digits.simps) simp

lemma digits_ge10: "10 \<le> n \<Longrightarrow> digits n = digits (n div 10) @ [48 + n mod 10]"
  by (subst digits.simps) simp

lemma group3_short: "length ds \<le> 3 \<Longrightarrow> group3 ds = ds"
  by (subst group3.simps) simp

lemma group3_long:
  "3 < length ds \<Longrightarrow>
   group3 ds = group3 (take (length ds - 3) ds) @ [44] @ drop (length ds - 3) ds"
  by (subst group3.simps) simp

lemma digits_1234567: "digits 1234567 = lit ''1234567''"
  by (simp add: digits_lt10 digits_ge10 lit_def)

lemma group3_1234567: "group3 (lit ''1234567'') = lit ''1,234,567''"
  by (simp add: group3_short group3_long lit_def)


lemma fixed_point_1234567_5:
  "fixed_point True 2 (Finite False 2469135 (- 1)) = lit ''1,234,567.50''"
proof -
  have n: "scaled 2 2469135 (- 1) = 123456750"
    by (simp add: scaled_def round_half_even_def Let_def)
  have f: "pad_digits 2 50 = lit ''50''"
    by (simp add: pad_digits_def digits_lt10 digits_ge10 lit_def)
  show ?thesis
    by (simp add: n f digits_1234567 group3_1234567) (simp add: lit_def)
qed

lemma fixed_point_0_375:
  "fixed_point False 8 (Finite False 3 (- 3)) = lit ''0.37500000''"
proof -
  have n: "scaled 8 3 (- 3) = 37500000"
    by (simp add: scaled_def round_half_even_def Let_def)
  have d: "digits 37500000 = lit ''37500000''" "digits 0 = lit ''0''"
    by (simp_all add: digits_lt10 digits_ge10 lit_def)
  have f: "pad_digits 8 37500000 = lit ''37500000''"
    by (simp add: pad_digits_def d) (simp add: lit_def)
  show ?thesis
    by (simp add: n f d) (simp add: lit_def)
qed

lemma money_shape_examples:
  "\<not> money_shape True 2 (lit ''$inf'')"
  by (simp_all add: money_shape_def decimal_shape_def is_digit_def lit_def Let_def)

text \<open>
  C4, as the code has it: the market-cap field of the message is \<open>N/A\<close> when
  \<open>usd_market_cap\<close> is falsy (absent, zero, null, empty), and when it is a truthy number
  whose float value is finite (an int that converts to float without overflow, or a finite
  float) it is a dollar sign followed by that value rounded to 2 decimals with the integer
  digits grouped in thousands. The price field is \<open>N/A\<close> when \<open>price_usd\<close> is falsy, and
  when it is truthy and \<open>float(price_usd)\<close> is a finite float it is a dollar sign followed by
  that value rounded to 8 decimals. When formatting succeeds, \<open>format_token_message\<close>
  returns the message that carries both fields after their headings.
\<close>

theorem numeric_fields_rendering:
  assumes "mc = dict_get d (lit ''usd_market_cap'') (PyInt 0)"
    and "pr = dict_get d (lit ''price_usd'') (PyInt 0)"
  shows "(\<not> py_truthy mc \<longrightarrow> market_cap_formatted mc = Inr (lit ''N/A'')) \<and>
         (\<not> py_truthy pr \<longrightarrow> price_formatted rt pr = Inr (lit ''N/A'')) \<and>
         (py_truthy mc \<and> is_number mc \<and> py_float rt mc = Inr (Finite sg m e) \<longrightarrow>
            market_cap_formatted mc = Inr (lit ''$'' @ fixed_point True 2 (Finite sg m e)) \<and>
            money_shape True 2 (lit ''$'' @ fixed_point True 2 (Finite sg m e))) \<and>
         (py_truthy pr \<and> py_float rt pr = Inr (Finite sg' m' e') \<longrightarrow>
            price_formatted rt pr = Inr (lit ''$'' @ fixed_point False 8 (Finite sg' m' e')) \<and>
            money_shape False 8 (lit ''$'' @ fixed_point False 8 (Finite sg' m' e'))) \<and>
         (format_body rt now d = Inr msg \<longrightarrow>
            format_token_message rt now d = msg \<and>
            (\<exists>price_f market_cap_f segment.
               market_cap_formatted mc = Inr market_cap_f \<and>
               price_formatted rt pr = Inr price_f \<and>
               msg =
                 message_head
                   (py_str rt (dict_get d (lit ''name'') (PyStr (lit ''Unknown''))))
                   (py_str rt (dict_get d (lit ''symbol'') (PyStr (lit ''N/A''))))
                   (py_str rt (dict_get d (lit ''mint'') (PyStr (lit ''N/A''))))
                   (py_str rt (dict_get d (lit ''creator'') (PyStr (lit ''Unknown''))))
                   price_f market_cap_f @
                 segment @
                 message_links (py_str rt (dict_get d (lit ''mint'') (PyStr (lit ''N/A'')))) @
                 social_link rt ''Website'' (dict_get d (lit ''website'') (PyStr [])) @
                 social_link rt ''Twitter'' (dict_get d (lit ''twitter'') (PyStr [])) @
                 social_link rt ''Telegram'' (dict_get d (lit ''telegram'') (PyStr [])) @
                 message_footer now))"
proof (intro conjI impI)
  show "market_cap_formatted mc = Inr (lit ''N/A'')" if "\<not> py_truthy mc"
    using that by (simp add: market_cap_formatted_def)
  show "price_formatted rt pr = Inr (lit ''N/A'')" if "\<not> py_truthy pr"
    using that by (simp add: price_formatted_def)
  show "market_cap_formatted mc = Inr (lit ''$'' @ fixed_point True 2 (Finite sg m e))"
    if "py_truthy mc \<and> is_number mc \<and> py_float rt mc = Inr (Finite sg m e)"
    using that format_f_number [of mc rt "Finite sg m e" True 2]
    by (simp add: market_cap_formatted_def)
  show "money_shape True 2 (lit ''$'' @ fixed_point True 2 (Finite sg m e))"
    by (rule fixed_point_shape) simp
  show "price_formatted rt pr = Inr (lit ''$'' @ fixed_point False 8 (Finite sg' m' e'))"
    if "py_truthy pr \<and> py_float rt pr = Inr (Finite sg' m' e')"
    using that by (simp add: price_formatted_def)
  show "money_shape False 8 (lit ''$'' @ fixed_point False 8 (Finite sg' m' e'))"
    by (rule fixed_point_shape) simp
  show "format_token_message rt now d = msg" if "format_body rt now d = Inr msg"
    using that by (rule format_token_message_ok)
  assume "format_body rt now d = Inr msg"
  then show "\<exists>price_f market_cap_f segment.
               market_cap_formatted mc = Inr market_cap_f \<and>
               price_formatted rt pr = Inr price_f \<and>
               msg =
                 message_head
                   (py_str rt (dict_get d (lit ''name'') (PyStr (lit ''Unknown''))))
                   (py_str rt (dict_get d (lit ''symbol'') (PyStr (lit ''N/A''))))
                   (py_str rt (dict_get d (lit ''mint'') (PyStr (lit ''N/A''))))
                   (py_str rt (dict_get d (lit ''creator'') (PyStr (lit ''Unknown''))))
                   price_f market_cap_f @
                 segment @
                 message_links (py_str rt (dict_get d (lit ''mint'') (PyStr (lit ''N/A'')))) @
                 social_link rt ''Website'' (dict_get d (lit ''website'') (PyStr [])) @
                 social_link rt ''Twitter'' (dict_get d (lit ''twitter'') (PyStr [])) @
                 social_link rt ''Telegram'' (dict_get d (lit ''telegram'') (PyStr [])) @
                 message_footer now"
    unfolding assms by (elim format_body_Inr) blast
qed

theorem numeric_fields_rendering_witness:
  "market_cap_formatted (PyInt 0) = Inr (lit ''N/A'') \<and>
   price_formatted demo_runtime (PyInt 0) = Inr (lit ''N/A'') \<and>
   py_truthy (PyFloat (Finite False 2469135 (- 1))) \<and>
   is_number (PyFloat (Finite False 2469135 (- 1))) \<and>
   market_cap_formatted (PyFloat (Finite False 2469135 (- 1))) = Inr (lit ''$1,234,567.50'') \<and>
   money_shape True 2 (lit ''$1,234,567.50'') \<and>
   py_truthy (PyFloat (Finite False 3 (- 3))) \<and>
   price_formatted demo_runtime (PyFloat (Finite False 3 (- 3))) = Inr (lit ''$0.37500000'') \<and>
   money_shape False 8 (lit ''$0.37500000'') \<and>
   format_body demo_runtime (lit ''2024-01-01 00:00:00 UTC'')
       [(lit ''usd_market_cap'', PyFloat (Finite False 2469135 (- 1))),
        (lit ''price_usd'', PyFloat (Finite False 3 (- 3)))] =
     Inr (message_head (lit ''Unknown'') (lit ''N/A'') (lit ''N/A'') (lit ''Unknown'')
            (lit ''$0.37500000'') (lit ''$1,234,567.50'') @
          lit ''No description available'' @ message_links (lit ''N/A'') @
          message_footer (lit ''2024-01-01 00:00:00 UTC'')) \<and>
   format_token_message demo_runtime (lit ''2024-01-01 00:00:00 UTC'')
       [(lit ''usd_market_cap'', PyFloat (Finite False 2469135 (- 1))),
        (lit ''price_usd'', PyFloat (Finite False 3 (- 3)))] =
     message_head (lit ''Unknown'') (lit ''N/A'') (lit ''N/A'') (lit ''Unknown'')
       (lit ''$0.37500000'') (lit ''$1,234,567.50'') @
     lit ''No description available'' @ message_links (lit ''N/A'') @
     message_footer (lit ''2024-01-01 00:00:00 UTC'')"
proof -
  let ?d = "[(lit ''usd_market_cap'', PyFloat (Finite False 2469135 (- 1))),
             (lit ''price_usd'', PyFloat (Finite False 3 (- 3)))]"
  let ?now = "lit ''2024-01-01 00:00:00 UTC''"
  have g: "PyFloat (Finite False 2469135 (- 1)) = dict_get ?d (lit ''usd_market_cap'') (PyInt 0)"
      "PyFloat (Finite False 3 (- 3)) = dict_get ?d (lit ''price_usd'') (PyInt 0)"
    by (simp_all add: dict_get_def lit_def)
  have z: "PyInt 0 = dict_get [] (lit ''usd_market_cap'') (PyInt 0)"
      "PyInt 0 = dict_get [] (lit ''price_usd'') (PyInt 0)"
    by (simp_all add: dict_get_def)
  have dollar: "lit ''$'' @ lit ''1,234,567.50'' = lit ''$1,234,567.50''"
      "lit ''$'' @ lit ''0.37500000'' = lit ''$0.37500000''"
    by (simp_all add: lit_def)
  have others: "dict_get ?d (lit ''name'') dn = dn" "dict_get ?d (lit ''symbol'') ds = ds"
      "dict_get ?d (lit ''mint'') dm = dm" "dict_get ?d (lit ''creator'') dc = dc"
      "dict_get ?d (lit ''description'') dd = dd" "dict_get ?d (lit ''website'') dw = dw"
      "dict_get ?d (lit ''twitter'') dt = dt" "dict_get ?d (lit ''telegram'') dg = dg"
    for dn ds dm dc dd dw dt dg
    by (simp_all add: dict_get_def lit_def)
  have len: "take 200 (lit ''No description available'') = lit ''No description available''"
      "\<not> 200 < length (lit ''No description available'')"
    by (simp_all add: lit_def)
  note a = numeric_fields_rendering [OF g, of demo_runtime False 2469135 "- 1" False 3 "- 3" ?now]
  note b = numeric_fields_rendering [OF z, of demo_runtime]
  have mcf: "market_cap_formatted (PyFloat (Finite False 2469135 (- 1))) = Inr (lit ''$1,234,567.50'')"
    using a by (simp add: fixed_point_1234567_5 dollar del: fixed_point.simps)
  have ms: "money_shape True 2 (lit ''$1,234,567.50'')"
    using a by (simp add: fixed_point_1234567_5 dollar del: fixed_point.simps)
  have pf: "price_formatted demo_runtime (PyFloat (Finite False 3 (- 3))) = Inr (lit ''$0.37500000'')"
    using a by (simp add: fixed_point_0_375 dollar del: fixed_point.simps)
  have ps: "money_shape False 8 (lit ''$0.37500000'')"
    using a by (simp add: fixed_point_0_375 dollar del: fixed_point.simps)
  have na: "market_cap_formatted (PyInt 0) = Inr (lit ''N/A'')"
      "price_formatted demo_runtime (PyInt 0) = Inr (lit ''N/A'')"
    using b by simp_all
  have fb: "format_body demo_runtime ?now ?d =
     Inr (message_head (lit ''Unknown'') (lit ''N/A'') (lit ''N/A'') (lit ''Unknown'')
            (lit ''$0.37500000'') (lit ''$1,234,567.50'') @
          lit ''No description available'' @ message_links (lit ''N/A'') @
          message_footer ?now)"
    unfolding format_body_def Let_def others g [symmetric] mcf pf
    by (simp add: len py_str_PyStr social_link_def)
  note c = numeric_fields_rendering [OF g, of demo_runtime False 2469135 "- 1" False 3 "- 3" ?now
      "message_head (lit ''Unknown'') (lit ''N/A'') (lit ''N/A'') (lit ''Unknown'')
         (lit ''$0.37500000'') (lit ''$1,234,567.50'') @
       lit ''No description available'' @ message_links (lit ''N/A'') @
       message_footer ?now"]
  have ftm: "format_token_message demo_runtime ?now ?d =
     message_head (lit ''Unknown'') (lit ''N/A'') (lit ''N/A'') (lit ''Unknown'')
       (lit ''$0.37500000'') (lit ''$1,234,567.50'') @
     lit ''No description available'' @ message_links (lit ''N/A'') @
     message_footer ?now"
    using c fb by blast
  show ?thesis
    using mcf ms pf ps na fb ftm by simp
qed

text \<open>
  A truthy market cap is not always rendered with two decimals: the float infinity (the
  JSON token \<open>Infinity\<close>, which \<open>json.loads\<close> accepts) is rendered as \<open>$inf\<close>, and an int
  of \<open>2 ^ 1024\<close> cannot be converted to float, so that the whole message becomes the
  fallback text.
\<close>

theorem market_cap_not_always_two_decimals:
  "py_truthy (PyFloat PosInf) \<and>
   market_cap_formatted (PyFloat PosInf) = Inr (lit ''$inf'') \<and>
   \<not> money_shape True 2 (lit ''$inf'') \<and>
   format_body demo_runtime (lit ''2024-01-01 00:00:00 UTC'')
       [(lit ''usd_market_cap'', PyFloat PosInf)] =
     Inr (message_head (lit ''Unknown'') (lit ''N/A'') (lit ''N/A'') (lit ''Unknown'')
            (lit ''N/A'') (lit ''$inf'') @
          lit ''No description available'' @ message_links (lit ''N/A'') @
          message_footer (lit ''2024-01-01 00:00:00 UTC'')) \<and>
   format_token_message demo_runtime (lit ''2024-01-01 00:00:00 UTC'')
       [(lit ''usd_market_cap'', PyFloat PosInf)] =
     message_head (lit ''Unknown'') (lit ''N/A'') (lit ''N/A'') (lit ''Unknown'')
       (lit ''N/A'') (lit ''$inf'') @
     lit ''No description available'' @ message_links (lit ''N/A'') @
     message_footer (lit ''2024-01-01 00:00:00 UTC'') \<and>
   py_truthy (PyInt (2 ^ 1024)) \<and>
   market_cap_formatted (PyInt (2 ^ 1024)) = Inl (IntTooLarge (2 ^ 1024)) \<and>
   format_token_message demo_runtime (lit ''2024-01-01 00:00:00 UTC'')
       [(lit ''usd_market_cap'', PyInt (2 ^ 1024))] =
     lit ''Error formatting token data: '' @ lit ''<exception>''"
proof -
  let ?now = "lit ''2024-01-01 00:00:00 UTC''"
  have inf: "market_cap_formatted (PyFloat PosInf) = Inr (lit ''$inf'')"
    by (simp add: market_cap_formatted_def lit_def)
  have big: "market_cap_formatted (PyInt (2 ^ 1024)) = Inl (IntTooLarge (2 ^ 1024))"
    by (simp add: market_cap_formatted_def float_of_int_def)
  have others: "dict_get [(lit ''usd_market_cap'', v)] (lit ''name'') dn = dn"
      "dict_get [(lit ''usd_market_cap'', v)] (lit ''symbol'') ds = ds"
      "dict_get [(lit ''usd_market_cap'', v)] (lit ''mint'') dm = dm"
      "dict_get [(lit ''usd_market_cap'', v)] (lit ''creator'') dc = dc"
      "dict_get [(lit ''usd_market_cap'', v)] (lit ''description'') dd = dd"
      "dict_get [(lit ''usd_market_cap'', v)] (lit ''website'') dw = dw"
      "dict_get [(lit ''usd_market_cap'', v)] (lit ''twitter'') dt = dt"
      "dict_get [(lit ''usd_market_cap'', v)] (lit ''telegram'') dg = dg"
      "dict_get [(lit ''usd_market_cap'', v)] (lit ''price_usd'') dp = dp"
      "dict_get [(lit ''usd_market_cap'', v)] (lit ''usd_market_cap'') dv = v"
    for v dn ds dm dc dd dw dt dg dp dv
    by (simp_all add: dict_get_def lit_def)
  have len: "take 200 (lit ''No description available'') = lit ''No description available''"
      "\<not> 200 < length (lit ''No description available'')"
    by (simp_all add: lit_def)
  have pna: "price_formatted demo_runtime (PyInt 0) = Inr (lit ''N/A'')"
    by (simp add: price_formatted_def)
  have fb: "format_body demo_runtime ?now [(lit ''usd_market_cap'', PyFloat PosInf)] =
     Inr (message_head (lit ''Unknown'') (lit ''N/A'') (lit ''N/A'') (lit ''Unknown'')
            (lit ''N/A'') (lit ''$inf'') @
          lit ''No description available'' @ message_links (lit ''N/A'') @
          message_footer ?now)"
    unfolding format_body_def Let_def others inf pna
    by (simp add: len py_str_PyStr social_link_def)
  have fm: "format_token_message demo_runtime ?now [(lit ''usd_market_cap'', PyInt (2 ^ 1024))] =
     lit ''Error formatting token data: '' @ lit ''<exception>''"
    unfolding format_token_message_def format_body_def Let_def others big
    by (simp add: demo_runtime_def)
  show ?thesis
    using inf big fb fm money_shape_examples format_token_message_ok [OF fb] by simp
qed

end
